theory Spec2Isabelle
  imports Complex_Main
begin

section \<open>World positions of prims in a transform hierarchy\<close>

text \<open>
  The module \<^verbatim>\<open>get_world_position.py\<close> has three query functions,
  \<^verbatim>\<open>get_world_position\<close>, \<^verbatim>\<open>get_world_positions_batch\<close> and
  \<^verbatim>\<open>get_world_transform_components\<close>. Each of them checks
  \<^verbatim>\<open>prim.IsA(UsdGeom.Xformable)\<close> and then asks the scene library
  (\<^verbatim>\<open>pxr\<close>: \<^verbatim>\<open>Usd\<close>, \<^verbatim>\<open>UsdGeom\<close>, \<^verbatim>\<open>Gf\<close>) for the
  local-to-world matrix of the prim, from which it reads the translation (and the scale).

  The three functions are embedded from the Python source: each returns its result or the
  error it raises, together with the calls it made into the scene and the lines it
  printed, in order. The scene library is not part of the source files; its data (prims,
  transform ops, time samples) and its operations (evaluating an op, composing the
  matrices along the ancestors, the transform cache) are modelled from sections 3 and 4 of
  the specification, and each such definition says so. \<^verbatim>\<open>Gf\<close> works with
  doubles; the model computes with real numbers.
\<close>

subsection \<open>Vectors and matrices (\<^verbatim>\<open>Gf.Vec3d\<close>, \<^verbatim>\<open>Gf.Matrix3d\<close>, \<^verbatim>\<open>Gf.Matrix4d\<close>)\<close>

text \<open>
  Modelled from the spec: the value types of section 6 (vectors of three numbers, 4x4
  matrices), which the source takes from \<^verbatim>\<open>Gf\<close>. A matrix is the tuple of its
  rows, as \<^verbatim>\<open>Gf\<close> stores and indexes it.
\<close>

type_synonym vec3 = "real \<times> real \<times> real"
type_synonym vec4 = "real \<times> real \<times> real \<times> real"

type_synonym mat3 = "vec3 \<times> vec3 \<times> vec3"
type_synonym mat4 = "vec4 \<times> vec4 \<times> vec4 \<times> vec4"

fun vec3_add :: "vec3 \<Rightarrow> vec3 \<Rightarrow> vec3" where
  "vec3_add (a, b, c) (x, y, z) = (a + x, b + y, c + z)"

fun vec4_add :: "vec4 \<Rightarrow> vec4 \<Rightarrow> vec4" where
  "vec4_add (a, b, c, d) (x, y, z, w) = (a + x, b + y, c + z, d + w)"

fun vec4_scale :: "real \<Rightarrow> vec4 \<Rightarrow> vec4" where
  "vec4_scale k (x, y, z, w) = (k * x, k * y, k * z, k * w)"

text \<open>
  Modelled from the spec: the product of matrices. \<^verbatim>\<open>Gf\<close> matrices act on row
  vectors: a point \<open>p\<close> is moved to \<open>p * M\<close>.
\<close>

fun row_times :: "vec4 \<Rightarrow> mat4 \<Rightarrow> vec4" where
  "row_times (a, b, c, d) (r0, r1, r2, r3) =
     vec4_add (vec4_add (vec4_add (vec4_scale a r0) (vec4_scale b r1)) (vec4_scale c r2))
       (vec4_scale d r3)"

fun mat_mul :: "mat4 \<Rightarrow> mat4 \<Rightarrow> mat4" where
  "mat_mul (a0, a1, a2, a3) B = (row_times a0 B, row_times a1 B, row_times a2 B, row_times a3 B)"

definition identity :: mat4 where
  "identity = ((1, 0, 0, 0), (0, 1, 0, 0), (0, 0, 1, 0), (0, 0, 0, 1))"

text \<open>
  Modelled from the spec: the composition sign of section 3 and 4.2, which is missing from
  the source files (it is the library's matrix product). \<open>compose A B\<close> is the transform
  that applies \<open>B\<close> first and \<open>A\<close> after it; on row vectors that is the product \<open>B * A\<close>.
\<close>

definition compose :: "mat4 \<Rightarrow> mat4 \<Rightarrow> mat4" where
  "compose A B = mat_mul B A"

text \<open>A point of space as a row vector with fourth coordinate 1, moved by a matrix.\<close>

fun transform_point :: "mat4 \<Rightarrow> vec3 \<Rightarrow> vec4" where
  "transform_point M (x, y, z) = row_times (x, y, z, 1) M"

text \<open>
  Modelled from the spec: the translation of a matrix (4.2),
  \<^verbatim>\<open>Gf.Matrix4d.ExtractTranslation\<close>. In a matrix that acts on row vectors the
  translation is the fourth row.
\<close>

fun ExtractTranslation :: "mat4 \<Rightarrow> vec3" where
  "ExtractTranslation (r0, r1, r2, (x, y, z, w)) = (x, y, z)"

text \<open>
  Modelled from the spec: the upper-left 3x3 block before any orthonormalisation (4.2),
  \<^verbatim>\<open>Gf.Matrix4d.ExtractRotationMatrix\<close>.
\<close>

fun ExtractRotationMatrix :: "mat4 \<Rightarrow> mat3" where
  "ExtractRotationMatrix ((a, b, c, d), (e, f, g, h), (i, j, k, l), r3) =
     ((a, b, c), (e, f, g), (i, j, k))"

text \<open>Modelled from the spec: the length of a vector (4.2), \<^verbatim>\<open>Gf.Vec3d.GetLength\<close>.\<close>

fun GetLength :: "vec3 \<Rightarrow> real" where
  "GetLength (x, y, z) = sqrt (x * x + y * y + z * z)"

subsection \<open>Transform ops and their values in time\<close>

text \<open>
  Modelled from the spec: the time code of section 6, \<^verbatim>\<open>Usd.TimeCode\<close>: the
  default sentinel or a number.
\<close>

datatype time_code = Default | TimeCode real

text \<open>
  Modelled from the spec: the time-sampled value of section 3 (an optional default value
  and a sequence of (time, value) samples, kept in increasing order of time), which the
  library stores and the source files do not declare.
\<close>

datatype 'v sampled = Sampled (default_value: "'v option") (time_samples: "(real \<times> 'v) list")

text \<open>
  Modelled from the spec: the transform op of section 3, missing from the source files.
  Angles are in degrees. The quaternion and arbitrary-axis rotations of the spec are left
  out: the spec gives them no formula and leaves their interpolation open.
\<close>

datatype xform_op =
    Translate "vec3 sampled"
  | Scale "vec3 sampled"
  | RotateX "real sampled"
  | RotateY "real sampled"
  | RotateZ "real sampled"
  | Matrix "mat4 sampled"

text \<open>Modelled from the spec: linear interpolation, component by component (4.1).\<close>

definition lerp_real :: "real \<Rightarrow> real \<Rightarrow> real \<Rightarrow> real" where
  "lerp_real \<alpha> a b = (1 - \<alpha>) * a + \<alpha> * b"

fun lerp_vec3 :: "real \<Rightarrow> vec3 \<Rightarrow> vec3 \<Rightarrow> vec3" where
  "lerp_vec3 \<alpha> (a, b, c) (x, y, z) = (lerp_real \<alpha> a x, lerp_real \<alpha> b y, lerp_real \<alpha> c z)"

fun lerp_vec4 :: "real \<Rightarrow> vec4 \<Rightarrow> vec4 \<Rightarrow> vec4" where
  "lerp_vec4 \<alpha> (a, b, c, d) (x, y, z, w) =
     (lerp_real \<alpha> a x, lerp_real \<alpha> b y, lerp_real \<alpha> c z, lerp_real \<alpha> d w)"

fun lerp_mat4 :: "real \<Rightarrow> mat4 \<Rightarrow> mat4 \<Rightarrow> mat4" where
  "lerp_mat4 \<alpha> (a0, a1, a2, a3) (b0, b1, b2, b3) =
     (lerp_vec4 \<alpha> a0 b0, lerp_vec4 \<alpha> a1 b1, lerp_vec4 \<alpha> a2 b2, lerp_vec4 \<alpha> a3 b3)"

text \<open>
  Modelled from the spec: time sampling of section 4.1, missing from the source files.
  Up to the first sample and from the last sample on, the boundary value is held; between
  two neighbouring samples \<open>t0 < time \<le> t1\<close> the value is interpolated linearly.
\<close>

fun sample_at :: "(real \<Rightarrow> 'v \<Rightarrow> 'v \<Rightarrow> 'v) \<Rightarrow> (real \<times> 'v) list \<Rightarrow> real \<Rightarrow> 'v option" where
  "sample_at lerp [] t = None"
| "sample_at lerp [(t0, v0)] t = Some v0"
| "sample_at lerp ((t0, v0) # (t1, v1) # rest) t =
     (if t \<le> t0 then Some v0
      else if t \<le> t1 then Some (lerp ((t - t0) / (t1 - t0)) v0 v1)
      else sample_at lerp ((t1, v1) # rest) t)"

text \<open>
  Modelled from the spec: the value of an op at a time (4.1). With no time samples the
  default value is returned whatever the time; the default time selects the default value
  if there is one and otherwise the earliest sample; a numeric time reads the samples.
\<close>

fun value_at :: "(real \<Rightarrow> 'v \<Rightarrow> 'v \<Rightarrow> 'v) \<Rightarrow> 'v sampled \<Rightarrow> time_code \<Rightarrow> 'v option" where
  "value_at lerp (Sampled d ss) Default =
     (case d of Some v \<Rightarrow> Some v
      | None \<Rightarrow> (case ss of [] \<Rightarrow> None | (t0, v0) # rest \<Rightarrow> Some v0))"
| "value_at lerp (Sampled d ss) (TimeCode t) =
     (case ss of [] \<Rightarrow> d | s # rest \<Rightarrow> sample_at lerp ss t)"

text \<open>
  Modelled from the spec: the matrices of the ops (4.1): a pure translation, a diagonal
  scale, a rotation about an axis by an angle in degrees.
\<close>

definition translate_matrix :: "vec3 \<Rightarrow> mat4" where
  "translate_matrix v = (case v of (x, y, z) \<Rightarrow>
     ((1, 0, 0, 0), (0, 1, 0, 0), (0, 0, 1, 0), (x, y, z, 1)))"

definition scale_matrix :: "vec3 \<Rightarrow> mat4" where
  "scale_matrix v = (case v of (x, y, z) \<Rightarrow>
     ((x, 0, 0, 0), (0, y, 0, 0), (0, 0, z, 0), (0, 0, 0, 1)))"

definition radians :: "real \<Rightarrow> real" where
  "radians deg = deg * pi / 180"

text \<open>Right-handed rotations about the axes, written for row vectors.\<close>

definition rotate_x_matrix :: "real \<Rightarrow> mat4" where
  "rotate_x_matrix deg = (let c = cos (radians deg); s = sin (radians deg) in
     ((1, 0, 0, 0), (0, c, s, 0), (0, - s, c, 0), (0, 0, 0, 1)))"

definition rotate_y_matrix :: "real \<Rightarrow> mat4" where
  "rotate_y_matrix deg = (let c = cos (radians deg); s = sin (radians deg) in
     ((c, 0, - s, 0), (0, 1, 0, 0), (s, 0, c, 0), (0, 0, 0, 1)))"

definition rotate_z_matrix :: "real \<Rightarrow> mat4" where
  "rotate_z_matrix deg = (let c = cos (radians deg); s = sin (radians deg) in
     ((c, s, 0, 0), (- s, c, 0, 0), (0, 0, 1, 0), (0, 0, 0, 1)))"

text \<open>Modelled from the spec: an op without any authored value contributes the identity.\<close>

definition op_matrix :: "('v \<Rightarrow> mat4) \<Rightarrow> 'v option \<Rightarrow> mat4" where
  "op_matrix f v = (case v of None \<Rightarrow> identity | Some x \<Rightarrow> f x)"

text \<open>
  Modelled from the spec: \<open>Evaluate(op, time)\<close> of section 4.1, missing from the source
  files. It returns a matrix and nothing else.
\<close>

fun Evaluate :: "xform_op \<Rightarrow> time_code \<Rightarrow> mat4" where
  "Evaluate (Translate s) t = op_matrix translate_matrix (value_at lerp_vec3 s t)"
| "Evaluate (Scale s) t = op_matrix scale_matrix (value_at lerp_vec3 s t)"
| "Evaluate (RotateX s) t = op_matrix rotate_x_matrix (value_at lerp_real s t)"
| "Evaluate (RotateY s) t = op_matrix rotate_y_matrix (value_at lerp_real s t)"
| "Evaluate (RotateZ s) t = op_matrix rotate_z_matrix (value_at lerp_real s t)"
| "Evaluate (Matrix s) t = op_matrix (\<lambda>m. m) (value_at lerp_mat4 s t)"

text \<open>
  Modelled from the spec: the local transform of section 3, the product of the op matrices
  in authored order, \<open>M_local = M_op1 \<cdot> M_op2 \<cdot> \<dots>\<close>.
\<close>

fun Local :: "xform_op list \<Rightarrow> time_code \<Rightarrow> mat4" where
  "Local [] t = identity"
| "Local (op # rest) t = compose (Evaluate op t) (Local rest t)"

subsection \<open>Prims and the hierarchy\<close>

text \<open>
  Modelled from the spec: the node of section 3, which the library provides as
  \<^verbatim>\<open>Usd.Prim\<close>. A prim is reached from the root of its stage, so it is given with
  its chain of ancestors: the hierarchy is rooted and acyclic by construction. The root
  carries no transform and is not transformable.
\<close>

datatype prim =
    PseudoRoot
  | Prim (parent: prim) (name: string) (transformable: bool) (xform_ops: "xform_op list")

text \<open>
  Modelled from the spec: whether a node is transformable (section 6),
  \<^verbatim>\<open>prim.IsA(UsdGeom.Xformable)\<close>.
\<close>

fun IsA_Xformable :: "prim \<Rightarrow> bool" where
  "IsA_Xformable PseudoRoot = False"
| "IsA_Xformable (Prim p n x ops) = x"

text \<open>
  Modelled from the spec: the path that identifies a node (section 3),
  \<^verbatim>\<open>prim.GetPath()\<close> as it is printed: the names from the root, each after a
  slash.
\<close>

fun GetPath :: "prim \<Rightarrow> string" where
  "GetPath PseudoRoot = ''/''"
| "GetPath (Prim PseudoRoot n x ops) = ''/'' @ n"
| "GetPath (Prim p n x ops) = GetPath p @ ''/'' @ n"

text \<open>
  Modelled from the spec: \<open>ComputeWorldTransform\<close> of section 4.2, missing from the source
  files: \<open>World(node) = World(parent) \<cdot> Local(node)\<close>, with \<open>World(root) = Identity\<close>.
\<close>

fun ComputeLocalToWorldTransform :: "prim \<Rightarrow> time_code \<Rightarrow> mat4" where
  "ComputeLocalToWorldTransform PseudoRoot t = identity"
| "ComputeLocalToWorldTransform (Prim p n x ops) t =
     compose (ComputeLocalToWorldTransform p t) (Local ops t)"

text \<open>
  Modelled from the spec: the transform cache of section 4.3 (\<^verbatim>\<open>UsdGeom.XformCache\<close>),
  missing from the source files. The cache is made for one time and maps the prims already
  seen to their world transforms; a query reads the entry of the prim or, if there is none,
  queries the parent through the cache, composes and stores the result.
\<close>

type_synonym xform_cache = "(prim \<times> mat4) list"

fun GetLocalToWorldTransform :: "time_code \<Rightarrow> xform_cache \<Rightarrow> prim \<Rightarrow> mat4 \<times> xform_cache" where
  "GetLocalToWorldTransform t cache PseudoRoot = (identity, cache)"
| "GetLocalToWorldTransform t cache (Prim p n x ops) =
     (case map_of cache (Prim p n x ops) of
        Some m \<Rightarrow> (m, cache)
      | None \<Rightarrow>
          (case GetLocalToWorldTransform t cache p of (pm, cache') \<Rightarrow>
             (let m = compose pm (Local ops t) in (m, (Prim p n x ops, m) # cache'))))"

subsection \<open>The query functions of \<^verbatim>\<open>get_world_position.py\<close>\<close>

datatype error = RuntimeError string

text \<open>
  The argument of the query functions is a \<^verbatim>\<open>Usd.Prim\<close>: a handle, which either
  refers to a prim of a stage or is invalid (\<^verbatim>\<open>Usd.Prim()\<close>). The spec does not
  speak of invalid handles. The library refuses every method call on one, the first of
  which is \<^verbatim>\<open>prim.IsA\<close> in all three functions, with a \<^verbatim>\<open>RuntimeError\<close>
  that names no path.
\<close>

datatype usd_prim = InvalidPrim | PrimAt prim

definition invalid_prim_access :: error where
  "invalid_prim_access = RuntimeError ''Accessed invalid null prim''"

text \<open>
  What a query does besides returning or raising: the calls it makes into the scene, in
  the order of the source, and the lines it prints. The methods of matrices and vectors
  read no scene data and are not recorded.
\<close>

datatype event =
    Ev_IsA usd_prim
  | Ev_GetPath usd_prim
  | Ev_ComputeLocalToWorldTransform usd_prim time_code
  | Ev_XformCache time_code
  | Ev_GetLocalToWorldTransform usd_prim
  | Ev_print string

fun printed :: "event list \<Rightarrow> string list" where
  "printed [] = []"
| "printed (Ev_print line # events) = line # printed events"
| "printed (e # events) = printed events"

text \<open>
  \<^verbatim>\<open>get_world_position(prim, time)\<close>: the check of the prim's kind comes first and
  raises; otherwise the world transform is computed and its translation returned.
\<close>

definition get_world_position :: "usd_prim \<Rightarrow> time_code \<Rightarrow> (error + vec3) \<times> event list" where
  "get_world_position prim time =
     (case prim of
        InvalidPrim \<Rightarrow> (Inl invalid_prim_access, [Ev_IsA prim])
      | PrimAt node \<Rightarrow>
          if \<not> IsA_Xformable node then
            (Inl (RuntimeError (''Prim at path '' @ GetPath node @ '' is not transformable. '' @
                                ''It must inherit from UsdGeomXformable.'')),
             [Ev_IsA prim, Ev_GetPath prim])
          else
            (let world_transform = ComputeLocalToWorldTransform node time
             in (Inr (ExtractTranslation world_transform),
                 [Ev_IsA prim, Ev_ComputeLocalToWorldTransform prim time])))"

text \<open>
  \<^verbatim>\<open>get_world_positions_batch(prims, time)\<close>: the loop over the prims, with the
  cache, the list of positions and the events so far as its state. The cache is made
  before the loop. A raise inside the loop ends the call; what was printed before stays
  printed.
\<close>

fun batch_loop ::
  "time_code \<Rightarrow> usd_prim list \<Rightarrow> xform_cache \<Rightarrow> vec3 list \<Rightarrow> event list \<Rightarrow>
     (error + vec3 list) \<times> event list"
where
  "batch_loop time [] cache positions events = (Inr positions, events)"
| "batch_loop time (prim # rest) cache positions events =
     (case prim of
        InvalidPrim \<Rightarrow> (Inl invalid_prim_access, events @ [Ev_IsA prim])
      | PrimAt node \<Rightarrow>
          if \<not> IsA_Xformable node then
            batch_loop time rest cache (positions @ [(0, 0, 0)])
              (events @ [Ev_IsA prim, Ev_GetPath prim,
                 Ev_print (''Warning: Prim '' @ GetPath node @
                   '' is not transformable, skipping.'')])
          else
            (case GetLocalToWorldTransform time cache node of (world_transform, cache') \<Rightarrow>
               batch_loop time rest cache' (positions @ [ExtractTranslation world_transform])
                 (events @ [Ev_IsA prim, Ev_GetLocalToWorldTransform prim])))"

definition get_world_positions_batch ::
  "usd_prim list \<Rightarrow> time_code \<Rightarrow> (error + vec3 list) \<times> event list"
where
  "get_world_positions_batch prims time = batch_loop time prims [] [] [Ev_XformCache time]"

text \<open>
  \<^verbatim>\<open>get_world_transform_components(prim, time)\<close>. The scale is made of the lengths
  of the three rows of \<^verbatim>\<open>ExtractRotationMatrix()\<close>. The library's
  \<^verbatim>\<open>ExtractRotation\<close> is a parameter: the function only passes its result on.
\<close>

definition get_world_transform_components ::
  "(mat4 \<Rightarrow> 'rot) \<Rightarrow> usd_prim \<Rightarrow> time_code \<Rightarrow>
     (error + (vec3 \<times> 'rot \<times> vec3)) \<times> event list"
where
  "get_world_transform_components ExtractRotation prim time =
     (case prim of
        InvalidPrim \<Rightarrow> (Inl invalid_prim_access, [Ev_IsA prim])
      | PrimAt node \<Rightarrow>
          if \<not> IsA_Xformable node then
            (Inl (RuntimeError (''Prim at path '' @ GetPath node @ '' is not transformable.'')),
             [Ev_IsA prim, Ev_GetPath prim])
          else
            (let world_transform = ComputeLocalToWorldTransform node time;
                 translation = ExtractTranslation world_transform;
                 rotation = ExtractRotation world_transform;
                 scale = (case ExtractRotationMatrix world_transform of (r0, r1, r2) \<Rightarrow>
                            (GetLength r0, GetLength r1, GetLength r2))
             in (Inr (translation, rotation, scale),
                 [Ev_IsA prim, Ev_ComputeLocalToWorldTransform prim time])))"

subsection \<open>Stages of the test suite\<close>

text \<open>
  The prims that \<^verbatim>\<open>test_get_world_position.py\<close> builds: a parent translated by
  (100, 0, 0) with a child translated by (0, 50, 0), a scope (not transformable), and a cube
  with a translation animated over the frames 0, 50 and 100.
\<close>

definition stage_World :: prim where
  "stage_World = Prim PseudoRoot ''World'' True []"

definition stage_Parent :: prim where
  "stage_Parent = Prim stage_World ''Parent'' True [Translate (Sampled (Some (100, 0, 0)) [])]"

definition stage_Child :: prim where
  "stage_Child = Prim stage_Parent ''Child'' True [Translate (Sampled (Some (0, 50, 0)) [])]"

definition stage_Scope :: prim where
  "stage_Scope = Prim stage_World ''Scope'' False []"

definition animated_samples :: "(real \<times> vec3) list" where
  "animated_samples = [(0, (0, 0, 0)), (50, (50, 0, 0)), (100, (100, 0, 0))]"

definition stage_Animated :: prim where
  "stage_Animated = Prim stage_World ''Cube'' True [Translate (Sampled None animated_samples)]"

text \<open>Three more cubes: one mirrored, one flattened by a zero scale, one sheared.\<close>

definition stage_Mirrored :: prim where
  "stage_Mirrored = Prim stage_World ''Mirrored'' True [Scale (Sampled (Some (- 2, 3, 4)) [])]"

definition stage_Flat :: prim where
  "stage_Flat = Prim stage_World ''Flat'' True
     [Translate (Sampled (Some (10, 20, 30)) []), Scale (Sampled (Some (0, 1, 1)) [])]"

definition shear_matrix :: mat4 where
  "shear_matrix = ((1, 0, 0, 0), (3 / 5, 4 / 5, 0, 0), (0, 0, 1, 0), (0, 0, 0, 1))"

definition stage_Sheared :: prim where
  "stage_Sheared = Prim stage_World ''Sheared'' True [Matrix (Sampled (Some shear_matrix) [])]"

subsection \<open>The cache agrees with the direct computation\<close>

definition cache_ok :: "time_code \<Rightarrow> xform_cache \<Rightarrow> bool" where
  "cache_ok t cache \<longleftrightarrow>
     (\<forall>p m. map_of cache p = Some m \<longrightarrow> m = ComputeLocalToWorldTransform p t)"

lemma cache_ok_Nil: "cache_ok t []"
  by (simp add: cache_ok_def)

lemma GetLocalToWorldTransform_ok:
  "cache_ok t cache \<Longrightarrow> GetLocalToWorldTransform t cache p = (m, cache') \<Longrightarrow>
     m = ComputeLocalToWorldTransform p t \<and> cache_ok t cache'"
proof (induction p arbitrary: cache m cache')
  case PseudoRoot
  then show ?case by simp
next
  case (Prim p n x ops)
  show ?case
  proof (cases "map_of cache (Prim p n x ops)")
    case (Some m')
    from Prim.prems(2) Some have e: "m = m'" "cache' = cache" by auto
    from Prim.prems(1) Some have "m' = ComputeLocalToWorldTransform (Prim p n x ops) t"
      unfolding cache_ok_def by blast
    with e Prim.prems(1) show ?thesis by simp
  next
    case None
    obtain pm c1 where r: "GetLocalToWorldTransform t cache p = (pm, c1)" by fastforce
    from Prim.IH[OF Prim.prems(1) r]
    have pm: "pm = ComputeLocalToWorldTransform p t" and ok: "cache_ok t c1" by auto
    from Prim.prems(2) None r
    have m: "m = compose pm (Local ops t)" and c: "cache' = (Prim p n x ops, m) # c1"
      by (auto simp: Let_def)
    have "cache_ok t cache'" using ok pm m unfolding c cache_ok_def
      by (metis ComputeLocalToWorldTransform.simps(2) map_of_Cons_code(2) option.inject)
    then show ?thesis using pm m by simp
  qed
qed

text \<open>
  The loop over valid handles, started with a sound cache, appends one position per prim
  and the events of each prim in turn.
\<close>

lemma batch_loop_valid:
  "cache_ok t cache \<Longrightarrow>
   batch_loop t (map PrimAt ps) cache positions events =
     (Inr (positions @ map (\<lambda>p. if IsA_Xformable p
                                then ExtractTranslation (ComputeLocalToWorldTransform p t)
                                else (0, 0, 0)) ps),
      events @ concat (map (\<lambda>p. if IsA_Xformable p
                                 then [Ev_IsA (PrimAt p), Ev_GetLocalToWorldTransform (PrimAt p)]
                                 else [Ev_IsA (PrimAt p), Ev_GetPath (PrimAt p),
                                       Ev_print (''Warning: Prim '' @ GetPath p @
                                         '' is not transformable, skipping.'')]) ps))"
proof (induction ps arbitrary: cache positions events)
  case Nil
  then show ?case by simp
next
  case (Cons p ps)
  show ?case
  proof (cases "IsA_Xformable p")
    case False
    then show ?thesis using Cons.IH[OF Cons.prems] by simp
  next
    case True
    obtain m c1 where r: "GetLocalToWorldTransform t cache p = (m, c1)" by fastforce
    from GetLocalToWorldTransform_ok[OF Cons.prems r]
    have m: "m = ComputeLocalToWorldTransform p t" and ok: "cache_ok t c1" by auto
    show ?thesis using True r m Cons.IH[OF ok] by simp
  qed
qed

lemma batch_valid:
  "get_world_positions_batch (map PrimAt ps) t =
     (Inr (map (\<lambda>p. if IsA_Xformable p
                    then ExtractTranslation (ComputeLocalToWorldTransform p t)
                    else (0, 0, 0)) ps),
      Ev_XformCache t #
      concat (map (\<lambda>p. if IsA_Xformable p
                        then [Ev_IsA (PrimAt p), Ev_GetLocalToWorldTransform (PrimAt p)]
                        else [Ev_IsA (PrimAt p), Ev_GetPath (PrimAt p),
                              Ev_print (''Warning: Prim '' @ GetPath p @
                                '' is not transformable, skipping.'')]) ps))"
  unfolding get_world_positions_batch_def
  using batch_loop_valid[OF cache_ok_Nil, of t ps "[]" "[Ev_XformCache t]"] by simp

lemma printed_batch_events:
  "printed (concat (map (\<lambda>p. if IsA_Xformable p
                        then [Ev_IsA (PrimAt p), Ev_GetLocalToWorldTransform (PrimAt p)]
                        else [Ev_IsA (PrimAt p), Ev_GetPath (PrimAt p),
                              Ev_print (''Warning: Prim '' @ GetPath p @
                                '' is not transformable, skipping.'')]) ps)) =
   map (\<lambda>p. ''Warning: Prim '' @ GetPath p @ '' is not transformable, skipping.'')
     (filter (\<lambda>p. \<not> IsA_Xformable p) ps)"
  by (induction ps) simp_all

lemma printed_batch_valid:
  "printed (snd (get_world_positions_batch (map PrimAt ps) t)) =
   map (\<lambda>p. ''Warning: Prim '' @ GetPath p @ '' is not transformable, skipping.'')
     (filter (\<lambda>p. \<not> IsA_Xformable p) ps)"
  by (simp add: batch_valid printed_batch_events)




lemmas stage_defs = stage_World_def stage_Parent_def stage_Child_def stage_Scope_def
  stage_Animated_def animated_samples_def stage_Mirrored_def stage_Flat_def stage_Sheared_def
  shear_matrix_def

lemmas matrix_defs = compose_def identity_def translate_matrix_def scale_matrix_def
  op_matrix_def lerp_real_def

subsection \<open>Composition of matrices\<close>

lemma row_times_assoc: "row_times (row_times v B) A = row_times v (mat_mul B A)"
proof -
  obtain a b c d where v: "v = (a, b, c, d)" by (cases v) auto
  obtain b0 b1 b2 b3 where B: "B = (b0, b1, b2, b3)" by (cases B) auto
  obtain a0 a1 a2 a3 where A: "A = (a0, a1, a2, a3)" by (cases A) auto
  obtain p0 p1 p2 p3 where b0: "b0 = (p0, p1, p2, p3)" by (cases b0) auto
  obtain q0 q1 q2 q3 where b1: "b1 = (q0, q1, q2, q3)" by (cases b1) auto
  obtain r0 r1 r2 r3 where b2: "b2 = (r0, r1, r2, r3)" by (cases b2) auto
  obtain s0 s1 s2 s3 where b3: "b3 = (s0, s1, s2, s3)" by (cases b3) auto
  obtain e0 e1 e2 e3 where a0: "a0 = (e0, e1, e2, e3)" by (cases a0) auto
  obtain f0 f1 f2 f3 where a1: "a1 = (f0, f1, f2, f3)" by (cases a1) auto
  obtain g0 g1 g2 g3 where a2: "a2 = (g0, g1, g2, g3)" by (cases a2) auto
  obtain h0 h1 h2 h3 where a3: "a3 = (h0, h1, h2, h3)" by (cases a3) auto
  show ?thesis
    unfolding v B A b0 b1 b2 b3 a0 a1 a2 a3
    by (simp add: algebra_simps)
qed

text \<open>\<open>compose A B\<close> moves a point by \<open>B\<close> first and by \<open>A\<close> after it.\<close>

lemma compose_point:
  "transform_point (compose A B) v = row_times (transform_point B v) A"
  by (cases v) (simp add: compose_def row_times_assoc del: row_times.simps)

subsection \<open>The hierarchies of the test suite\<close>

text \<open>
  The expected positions of \<^verbatim>\<open>test_rotation_affects_child_position\<close>,
  \<^verbatim>\<open>test_scale_affects_child_position\<close>, \<^verbatim>\<open>test_multi_level_hierarchy\<close>
  and \<^verbatim>\<open>test_default_time_vs_specific_time\<close> come out of the model: its order of
  composition and its sense of rotation are those of the library.
\<close>

lemma rotation_propagation:
  "fst (get_world_position
     (PrimAt (Prim (Prim stage_World ''Parent'' True [RotateZ (Sampled (Some 90) [])])
        ''Child'' True [Translate (Sampled (Some (10, 0, 0)) [])])) Default) = Inr (0, 10, 0)"
  by (simp add: get_world_position_def stage_defs matrix_defs rotate_z_matrix_def radians_def)

lemma scale_propagation:
  "fst (get_world_position
     (PrimAt (Prim (Prim stage_World ''Parent'' True
              [Translate (Sampled (Some (10, 0, 0)) []), Scale (Sampled (Some (2, 2, 2)) [])])
        ''Child'' True [Translate (Sampled (Some (5, 0, 0)) [])])) Default) = Inr (20, 0, 0)"
  by (simp add: get_world_position_def stage_defs matrix_defs)

lemma multi_level_accumulation:
  "fst (get_world_position
     (PrimAt (Prim (Prim (Prim (Prim stage_World
                    ''Level1'' True [Translate (Sampled (Some (10, 0, 0)) [])])
                    ''Level2'' True [Translate (Sampled (Some (0, 20, 0)) [])])
              ''Level3'' True [Translate (Sampled (Some (0, 0, 30)) [])])
        ''Child'' True [Translate (Sampled (Some (1, 2, 3)) [])])) Default) = Inr (11, 22, 33)"
  by (simp add: get_world_position_def stage_defs matrix_defs)

lemma default_versus_sampled:
  "fst (get_world_position
     (PrimAt (Prim stage_World ''Cube'' True
        [Translate (Sampled (Some (10, 0, 0)) [(100, (50, 0, 0))])]))
     Default) = Inr (10, 0, 0) \<and>
   fst (get_world_position
     (PrimAt (Prim stage_World ''Cube'' True
        [Translate (Sampled (Some (10, 0, 0)) [(100, (50, 0, 0))])]))
     (TimeCode 100)) = Inr (50, 0, 0)"
  by (simp add: get_world_position_def stage_defs matrix_defs)

section \<open>The claims\<close>

subsection \<open>The batch query\<close>




text \<open>
  C4. For a list of transformable prims and a fixed time, the batch output at index \<open>i\<close> is
  what \<^verbatim>\<open>get_world_position\<close> returns for the prim at index \<open>i\<close>: the cache does
  not change any result.
\<close>

theorem batch_equals_single:
  "(\<forall>p \<in> set ps. IsA_Xformable p) \<Longrightarrow> i < length ps \<Longrightarrow>
     \<exists>positions. fst (get_world_positions_batch (map PrimAt ps) time) = Inr positions \<and>
       fst (get_world_position (PrimAt (ps ! i)) time) = Inr (positions ! i)"
  by (simp add: batch_valid get_world_position_def)

theorem batch_equals_single_witness:
  "IsA_Xformable stage_Child \<and> IsA_Xformable stage_Parent \<and>
   (1::nat) < length [stage_Child, stage_Parent] \<and>
   fst (get_world_position (PrimAt stage_Parent) Default) = Inr (100, 0, 0) \<and>
   (\<exists>positions.
      fst (get_world_positions_batch [PrimAt stage_Child, PrimAt stage_Parent] Default) =
        Inr positions \<and> positions ! 1 = (100, 0, 0))"
proof -
  have h: "\<forall>p \<in> set [stage_Child, stage_Parent]. IsA_Xformable p" by (simp add: stage_defs)
  have l: "(1::nat) < length [stage_Child, stage_Parent]" by simp
  have g: "fst (get_world_position (PrimAt stage_Parent) Default) = Inr (100, 0, 0)"
    by (simp add: get_world_position_def stage_defs matrix_defs)
  from batch_equals_single[OF h l, of Default] obtain positions
    where a: "fst (get_world_positions_batch [PrimAt stage_Child, PrimAt stage_Parent]
        Default) = Inr positions"
    and b: "fst (get_world_position (PrimAt stage_Parent) Default) = Inr (positions ! 1)"
    by auto
  from b g have "positions ! 1 = (100, 0, 0)" by simp
  with a have "\<exists>positions.
      fst (get_world_positions_batch [PrimAt stage_Child, PrimAt stage_Parent] Default) =
        Inr positions \<and> positions ! 1 = (100, 0, 0)"
    by blast
  with h l g show ?thesis by simp
qed




subsection \<open>The single-node queries\<close>

text \<open>
  C2, as stated: for every prim the error of a single-node query is the one whose message
  identifies the prim's path, raised exactly when the prim is not transformable. For an
  invalid handle both queries raise at the check itself, and the error is the library's:
  its message names no path.
\<close>

theorem invalid_handle_error_counterexample:
  "get_world_position InvalidPrim Default =
     (Inl (RuntimeError ''Accessed invalid null prim''), [Ev_IsA InvalidPrim]) \<and>
   get_world_transform_components ExtractRotationMatrix InvalidPrim Default =
     (Inl (RuntimeError ''Accessed invalid null prim''), [Ev_IsA InvalidPrim])"
  by (simp add: get_world_position_def get_world_transform_components_def
      invalid_prim_access_def)

text \<open>
  C2, amended. For every valid prim and every time, \<^verbatim>\<open>get_world_position\<close> and
  \<^verbatim>\<open>get_world_transform_components\<close> raise exactly when the prim is not
  transformable. The error is a \<^verbatim>\<open>RuntimeError\<close> whose message contains the prim's
  path, and two such messages agree only for equal paths. The check is the first call of
  both functions for every handle; when it fails, the only other call reads the path and
  no transform is computed, and when it succeeds the world transform is computed after it
  and \<^verbatim>\<open>get_world_position\<close> returns its translation. For an invalid handle the
  check raises the library's error, which names no path.
\<close>

theorem single_queries_invalid_node_kind:
  "(\<not> IsA_Xformable p \<longrightarrow>
      get_world_position (PrimAt p) time =
        (Inl (RuntimeError (''Prim at path '' @ GetPath p @
                '' is not transformable. It must inherit from UsdGeomXformable.'')),
         [Ev_IsA (PrimAt p), Ev_GetPath (PrimAt p)]) \<and>
      get_world_transform_components ExtractRotation (PrimAt p) time =
        (Inl (RuntimeError (''Prim at path '' @ GetPath p @ '' is not transformable.'')),
         [Ev_IsA (PrimAt p), Ev_GetPath (PrimAt p)])) \<and>
   (IsA_Xformable p \<longrightarrow>
      get_world_position (PrimAt p) time =
        (Inr (ExtractTranslation (ComputeLocalToWorldTransform p time)),
         [Ev_IsA (PrimAt p), Ev_ComputeLocalToWorldTransform (PrimAt p) time]) \<and>
      fst (get_world_transform_components ExtractRotation (PrimAt p) time) \<noteq> Inl e \<and>
      snd (get_world_transform_components ExtractRotation (PrimAt p) time) =
        [Ev_IsA (PrimAt p), Ev_ComputeLocalToWorldTransform (PrimAt p) time]) \<and>
   ((\<exists>e. fst (get_world_position (PrimAt p) time) = Inl e) \<longleftrightarrow> \<not> IsA_Xformable p) \<and>
   ((\<exists>e. fst (get_world_transform_components ExtractRotation (PrimAt p) time) = Inl e) \<longleftrightarrow>
      \<not> IsA_Xformable p) \<and>
   (\<not> IsA_Xformable p \<and> \<not> IsA_Xformable p' \<and>
    fst (get_world_position (PrimAt p) time) = fst (get_world_position (PrimAt p') time') \<longrightarrow>
      GetPath p = GetPath p') \<and>
   hd (snd (get_world_position prim time)) = Ev_IsA prim \<and>
   hd (snd (get_world_transform_components ExtractRotation prim time)) = Ev_IsA prim \<and>
   get_world_position InvalidPrim time = (Inl invalid_prim_access, [Ev_IsA InvalidPrim]) \<and>
   get_world_transform_components ExtractRotation InvalidPrim time =
     (Inl invalid_prim_access, [Ev_IsA InvalidPrim])"
proof -
  have h1: "hd (snd (get_world_position prim time)) = Ev_IsA prim"
    by (cases prim) (simp_all add: get_world_position_def Let_def)
  have h2: "hd (snd (get_world_transform_components ExtractRotation prim time)) = Ev_IsA prim"
    by (cases prim) (simp_all add: get_world_transform_components_def Let_def)
  show ?thesis
    unfolding h1 h2
    by (simp add: get_world_position_def get_world_transform_components_def Let_def)
qed

theorem single_queries_invalid_node_kind_witness:
  "get_world_position (PrimAt stage_Scope) Default =
     (Inl (RuntimeError
        ''Prim at path /World/Scope is not transformable. It must inherit from UsdGeomXformable.''),
      [Ev_IsA (PrimAt stage_Scope), Ev_GetPath (PrimAt stage_Scope)]) \<and>
   get_world_transform_components ExtractRotationMatrix (PrimAt stage_Scope) (TimeCode 7) =
     (Inl (RuntimeError ''Prim at path /World/Scope is not transformable.''),
      [Ev_IsA (PrimAt stage_Scope), Ev_GetPath (PrimAt stage_Scope)]) \<and>
   get_world_position (PrimAt stage_Child) Default =
     (Inr (100, 50, 0),
      [Ev_IsA (PrimAt stage_Child), Ev_ComputeLocalToWorldTransform (PrimAt stage_Child) Default])"
proof -
  have n: "\<not> IsA_Xformable stage_Scope" by (simp add: stage_defs)
  have y: "IsA_Xformable stage_Child" by (simp add: stage_defs)
  have p: "GetPath stage_Scope = ''/World/Scope''" by (simp add: stage_defs)
  have w: "ExtractTranslation (ComputeLocalToWorldTransform stage_Child Default) = (100, 50, 0)"
    by (simp add: stage_defs matrix_defs)
  from single_queries_invalid_node_kind[where p = stage_Scope and time = Default
      and ExtractRotation = ExtractRotationMatrix and p' = stage_Scope and time' = Default
      and prim = InvalidPrim and e = invalid_prim_access] n p
  have a: "get_world_position (PrimAt stage_Scope) Default =
     (Inl (RuntimeError
        ''Prim at path /World/Scope is not transformable. It must inherit from UsdGeomXformable.''),
      [Ev_IsA (PrimAt stage_Scope), Ev_GetPath (PrimAt stage_Scope)])"
    by simp
  from single_queries_invalid_node_kind[where p = stage_Scope and time = "TimeCode 7"
      and ExtractRotation = ExtractRotationMatrix and p' = stage_Scope and time' = Default
      and prim = InvalidPrim and e = invalid_prim_access] n p
  have b: "get_world_transform_components ExtractRotationMatrix (PrimAt stage_Scope)
      (TimeCode 7) =
     (Inl (RuntimeError ''Prim at path /World/Scope is not transformable.''),
      [Ev_IsA (PrimAt stage_Scope), Ev_GetPath (PrimAt stage_Scope)])"
    by simp
  from single_queries_invalid_node_kind[where p = stage_Child and time = Default
      and ExtractRotation = ExtractRotationMatrix and p' = stage_Scope and time' = Default
      and prim = InvalidPrim and e = invalid_prim_access] y w
  have c: "get_world_position (PrimAt stage_Child) Default =
     (Inr (100, 50, 0),
      [Ev_IsA (PrimAt stage_Child), Ev_ComputeLocalToWorldTransform (PrimAt stage_Child) Default])"
    by simp
  from a b c show ?thesis by simp
qed

text \<open>
  C9. For a transformable prim the translation that
  \<^verbatim>\<open>get_world_transform_components\<close> returns is the vector that
  \<^verbatim>\<open>get_world_position\<close> returns for the same prim and time.
\<close>

theorem components_translation_is_position:
  "IsA_Xformable prim \<Longrightarrow>
     \<exists>translation rotation scale.
       fst (get_world_transform_components ExtractRotation (PrimAt prim) time) =
         Inr (translation, rotation, scale) \<and>
       fst (get_world_position (PrimAt prim) time) = Inr translation"
  unfolding get_world_position_def get_world_transform_components_def Let_def
  by (intro exI) simp

theorem components_translation_is_position_witness:
  "IsA_Xformable stage_Child \<and>
   (\<exists>rotation scale.
      fst (get_world_transform_components ExtractRotationMatrix (PrimAt stage_Child) Default) =
        Inr ((100, 50, 0), rotation, scale)) \<and>
   fst (get_world_position (PrimAt stage_Child) Default) = Inr (100, 50, 0)"
proof -
  have y: "IsA_Xformable stage_Child" by (simp add: stage_defs)
  have g: "fst (get_world_position (PrimAt stage_Child) Default) = Inr (100, 50, 0)"
    by (simp add: get_world_position_def stage_defs matrix_defs)
  from components_translation_is_position[OF y, of ExtractRotationMatrix Default] g
  have "\<exists>rotation scale.
      fst (get_world_transform_components ExtractRotationMatrix (PrimAt stage_Child) Default) =
        Inr ((100, 50, 0), rotation, scale)" by auto
  with y g show ?thesis by simp
qed

subsection \<open>The scale of the decomposition\<close>

lemma sqrt_squares: "sqrt 4 = 2" "sqrt 9 = 3" "sqrt 16 = 4"
  using real_sqrt_abs[of 2] real_sqrt_abs[of 3] real_sqrt_abs[of 4] by simp_all

text \<open>
  C6. For a transformable prim the scale that \<^verbatim>\<open>get_world_transform_components\<close>
  returns is made of the lengths of the three rows of the upper-left 3x3 block of the world
  matrix, taken as it is. Nothing else of the block enters the scale, so shear is dropped
  without notice: the sheared cube of the witness reports the scale (1, 1, 1), as the
  unsheared prim above it does.
\<close>

theorem components_scale_is_row_lengths:
  "IsA_Xformable prim \<Longrightarrow>
     \<exists>translation rotation r0 r1 r2.
       ExtractRotationMatrix (ComputeLocalToWorldTransform prim time) = (r0, r1, r2) \<and>
       fst (get_world_transform_components ExtractRotation (PrimAt prim) time) =
         Inr (translation, rotation, (GetLength r0, GetLength r1, GetLength r2))"
proof -
  assume x: "IsA_Xformable prim"
  obtain r0 r1 r2
    where r: "ExtractRotationMatrix (ComputeLocalToWorldTransform prim time) = (r0, r1, r2)"
    by (cases "ExtractRotationMatrix (ComputeLocalToWorldTransform prim time)") auto
  have "fst (get_world_transform_components ExtractRotation (PrimAt prim) time) =
         Inr (ExtractTranslation (ComputeLocalToWorldTransform prim time),
              ExtractRotation (ComputeLocalToWorldTransform prim time),
              (GetLength r0, GetLength r1, GetLength r2))"
    using x r by (simp add: get_world_transform_components_def Let_def)
  with r show ?thesis by blast
qed

theorem components_scale_is_row_lengths_witness:
  "IsA_Xformable stage_Sheared \<and>
   ExtractRotationMatrix (ComputeLocalToWorldTransform stage_Sheared Default) =
     ((1, 0, 0), (3 / 5, 4 / 5, 0), (0, 0, 1)) \<and>
   (\<exists>translation rotation.
      fst (get_world_transform_components ExtractRotationMatrix (PrimAt stage_Sheared) Default) =
        Inr (translation, rotation, (1, 1, 1))) \<and>
   (\<exists>translation rotation.
      fst (get_world_transform_components ExtractRotationMatrix (PrimAt stage_World) Default) =
        Inr (translation, rotation, (1, 1, 1)))"
proof -
  have y: "IsA_Xformable stage_Sheared" by (simp add: stage_defs)
  have m: "ExtractRotationMatrix (ComputeLocalToWorldTransform stage_Sheared Default) =
     ((1, 0, 0), (3 / 5, 4 / 5, 0), (0, 0, 1))"
    by (simp add: stage_defs matrix_defs)
  have l: "GetLength (1, 0, 0) = 1" "GetLength (3 / 5, 4 / 5, 0) = 1" "GetLength (0, 0, 1) = 1"
    by simp_all
  from components_scale_is_row_lengths[OF y, of Default ExtractRotationMatrix] m l
  have s: "\<exists>translation rotation.
      fst (get_world_transform_components ExtractRotationMatrix (PrimAt stage_Sheared) Default) =
        Inr (translation, rotation, (1, 1, 1))" by auto
  have w: "\<exists>translation rotation.
      fst (get_world_transform_components ExtractRotationMatrix (PrimAt stage_World) Default) =
        Inr (translation, rotation, (1, 1, 1))"
    by (simp add: get_world_transform_components_def stage_defs matrix_defs)
  from y m s w show ?thesis by simp
qed

text \<open>
  C10. For every transformable prim each component of the scale that
  \<^verbatim>\<open>get_world_transform_components\<close> returns is the length of a row of the world
  matrix's 3x3 block and so not negative. A negative scale is reported as its magnitude:
  where that block is the diagonal of \<open>sx\<close>, \<open>sy\<close>, \<open>sz\<close>, as under a scale op, the
  scale returned is \<open>(|sx|, |sy|, |sz|)\<close>; the cube mirrored by the scale (-2, 3, 4)
  reports (2, 3, 4).
\<close>

theorem components_scale_non_negative:
  "IsA_Xformable prim \<Longrightarrow>
     (\<exists>translation rotation sx sy sz.
        fst (get_world_transform_components ExtractRotation (PrimAt prim) time) =
          Inr (translation, rotation, (sx, sy, sz)) \<and>
        0 \<le> sx \<and> 0 \<le> sy \<and> 0 \<le> sz \<and>
        (case ExtractRotationMatrix (ComputeLocalToWorldTransform prim time) of
           (r0, r1, r2) \<Rightarrow> sx = GetLength r0 \<and> sy = GetLength r1 \<and> sz = GetLength r2)) \<and>
     (ExtractRotationMatrix (ComputeLocalToWorldTransform prim time) =
        ((dx, 0, 0), (0, dy, 0), (0, 0, dz)) \<longrightarrow>
      (\<exists>translation rotation.
         fst (get_world_transform_components ExtractRotation (PrimAt prim) time) =
           Inr (translation, rotation, (\<bar>dx\<bar>, \<bar>dy\<bar>, \<bar>dz\<bar>))))"
proof -
  assume x: "IsA_Xformable prim"
  let ?W = "ComputeLocalToWorldTransform prim time"
  obtain r0 r1 r2 where r: "ExtractRotationMatrix ?W = (r0, r1, r2)"
    by (cases "ExtractRotationMatrix ?W") auto
  have c: "fst (get_world_transform_components ExtractRotation (PrimAt prim) time) =
         Inr (ExtractTranslation ?W, ExtractRotation ?W,
              (GetLength r0, GetLength r1, GetLength r2))"
    using x r by (simp add: get_world_transform_components_def Let_def)
  have nn: "0 \<le> GetLength v" for v by (cases v) simp
  have a: "\<exists>translation rotation sx sy sz.
        fst (get_world_transform_components ExtractRotation (PrimAt prim) time) =
          Inr (translation, rotation, (sx, sy, sz)) \<and>
        0 \<le> sx \<and> 0 \<le> sy \<and> 0 \<le> sz \<and>
        (case ExtractRotationMatrix ?W of
           (r0, r1, r2) \<Rightarrow> sx = GetLength r0 \<and> sy = GetLength r1 \<and> sz = GetLength r2)"
    unfolding r
    by (rule exI[of _ "ExtractTranslation ?W"], rule exI[of _ "ExtractRotation ?W"],
        rule exI[of _ "GetLength r0"], rule exI[of _ "GetLength r1"],
        rule exI[of _ "GetLength r2"]) (simp add: c nn)
  have b: "\<exists>translation rotation.
         fst (get_world_transform_components ExtractRotation (PrimAt prim) time) =
           Inr (translation, rotation, (\<bar>dx\<bar>, \<bar>dy\<bar>, \<bar>dz\<bar>))"
    if d: "ExtractRotationMatrix ?W = ((dx, 0, 0), (0, dy, 0), (0, 0, dz))"
  proof -
    from r d have "r0 = (dx, 0, 0)" "r1 = (0, dy, 0)" "r2 = (0, 0, dz)" by simp_all
    then have "GetLength r0 = \<bar>dx\<bar>" "GetLength r1 = \<bar>dy\<bar>" "GetLength r2 = \<bar>dz\<bar>"
      by simp_all
    then show ?thesis
      by (intro exI[of _ "ExtractTranslation ?W"] exI[of _ "ExtractRotation ?W"])
         (simp add: c)
  qed
  from a b show ?thesis by blast
qed

theorem components_scale_non_negative_witness:
  "IsA_Xformable stage_Mirrored \<and>
   ExtractRotationMatrix (ComputeLocalToWorldTransform stage_Mirrored Default) =
     ((- 2, 0, 0), (0, 3, 0), (0, 0, 4)) \<and>
   (\<exists>translation rotation.
      fst (get_world_transform_components ExtractRotationMatrix (PrimAt stage_Mirrored) Default) =
        Inr (translation, rotation, (2, 3, 4)))"
proof -
  have y: "IsA_Xformable stage_Mirrored" by (simp add: stage_defs)
  have d: "ExtractRotationMatrix (ComputeLocalToWorldTransform stage_Mirrored Default) =
     ((- 2, 0, 0), (0, 3, 0), (0, 0, 4))"
    by (simp add: stage_defs matrix_defs)
  from components_scale_non_negative[OF y, where time = Default and dx = "- 2" and dy = 3
      and dz = 4 and ExtractRotation = ExtractRotationMatrix] d
  have "\<exists>translation rotation.
      fst (get_world_transform_components ExtractRotationMatrix (PrimAt stage_Mirrored) Default) =
        Inr (translation, rotation, (2, 3, 4))"
    by simp
  with y d show ?thesis by simp
qed

subsection \<open>The world transform\<close>

text \<open>
  C1. The world transform of the root is the identity, and the world transform of any other
  prim is the world transform of its parent composed with the prim's local transform: a
  point is moved by the local transform first and by the parent's world transform after it.
  In particular, when the parent carries only a translation by \<open>pv\<close> (under ancestors
  that do not move it) and the child carries only a translation by \<open>cv\<close>,
  \<^verbatim>\<open>get_world_position\<close> of the child returns \<open>pv + cv\<close>.
\<close>

theorem world_transform_composition:
  "ComputeLocalToWorldTransform PseudoRoot time = identity \<and>
   ComputeLocalToWorldTransform (Prim p n x ops) time =
     compose (ComputeLocalToWorldTransform p time) (Local ops time) \<and>
   transform_point (ComputeLocalToWorldTransform (Prim p n x ops) time) v =
     row_times (transform_point (Local ops time) v) (ComputeLocalToWorldTransform p time) \<and>
   (ComputeLocalToWorldTransform g time = identity \<and>
    value_at lerp_vec3 sp time = Some pv \<and> value_at lerp_vec3 sc time = Some cv \<longrightarrow>
      fst (get_world_position
             (PrimAt (Prim (Prim g pn px [Translate sp]) cn True [Translate sc])) time) =
        Inr (vec3_add pv cv))"
proof -
  have "ExtractTranslation (compose (compose identity (compose (translate_matrix pv) identity))
          (compose (translate_matrix cv) identity)) = vec3_add pv cv"
    by (cases pv; cases cv) (simp add: matrix_defs)
  then show ?thesis
    by (simp add: compose_point get_world_position_def op_matrix_def)
qed

theorem world_transform_composition_witness:
  "ComputeLocalToWorldTransform stage_World Default = identity \<and>
   value_at lerp_vec3 (Sampled (Some (100, 0, 0)) []) Default = Some (100, 0, 0) \<and>
   value_at lerp_vec3 (Sampled (Some (0, 50, 0)) []) Default = Some (0, 50, 0) \<and>
   fst (get_world_position (PrimAt stage_Child) Default) = Inr (100, 50, 0)"
proof -
  have g: "ComputeLocalToWorldTransform stage_World Default = identity"
    by (simp add: stage_defs matrix_defs)
  have p: "value_at lerp_vec3 (Sampled (Some (100, 0, 0)) []) Default = Some (100, 0, 0)"
    and c: "value_at lerp_vec3 (Sampled (Some (0, 50, 0)) []) Default = Some (0, 50, 0)"
    by simp_all
  from world_transform_composition[where time = Default and g = stage_World
      and sp = "Sampled (Some (100, 0, 0)) []" and pv = "(100, 0, 0)"
      and sc = "Sampled (Some (0, 50, 0)) []" and cv = "(0, 50, 0)"
      and pn = "''Parent''" and px = True and cn = "''Child''"] g p c
  have "fst (get_world_position (PrimAt stage_Child) Default) = Inr (100, 50, 0)"
    by (simp add: stage_Child_def stage_Parent_def)
  with g p c show ?thesis by simp
qed

subsection \<open>Time samples\<close>

text \<open>Each interpolation returns its first argument at 0 and its second at 1.\<close>

lemma lerp_real_ends: "lerp_real 0 a b = a" "lerp_real 1 a b = b"
  by (simp_all add: lerp_real_def)

lemma lerp_vec3_ends: "lerp_vec3 0 a b = a" "lerp_vec3 1 a b = b"
  by (cases a; cases b; simp add: lerp_real_ends)+

lemma lerp_vec4_ends: "lerp_vec4 0 a b = a" "lerp_vec4 1 a b = b"
  by (cases a; cases b; simp add: lerp_real_ends)+

lemma lerp_mat4_ends: "lerp_mat4 0 a b = a" "lerp_mat4 1 a b = b"
proof -
  obtain a0 a1 a2 a3 where a: "a = (a0, a1, a2, a3)" by (cases a) auto
  obtain b0 b1 b2 b3 where b: "b = (b0, b1, b2, b3)" by (cases b) auto
  show "lerp_mat4 0 a b = a" "lerp_mat4 1 a b = b"
    unfolding a b by (simp_all add: lerp_vec4_ends)
qed

lemma sample_at_before: "t \<le> t0 \<Longrightarrow> sample_at lerp ((t0, v0) # rest) t = Some v0"
  by (cases rest) auto

lemma sample_at_step:
  "t0 < t \<Longrightarrow> t1 < t \<Longrightarrow>
     sample_at lerp ((t0, v0) # (t1, v1) # rest) t = sample_at lerp ((t1, v1) # rest) t"
  by simp

lemma sample_at_between:
  assumes l0: "\<And>a b. lerp 0 a b = a" and l1: "\<And>a b. lerp 1 a b = b"
  shows "sorted_wrt (<) (map fst (pre @ (t0, v0) # (t1, v1) # post)) \<Longrightarrow> t0 \<le> t \<Longrightarrow> t \<le> t1 \<Longrightarrow>
     sample_at lerp (pre @ (t0, v0) # (t1, v1) # post) t =
       Some (lerp ((t - t0) / (t1 - t0)) v0 v1)"
proof (induction pre)
  case Nil
  show ?case
  proof (cases "t = t0")
    case True
    then show ?thesis by (simp add: l0)
  next
    case False
    with Nil.prems show ?thesis by simp
  qed
next
  case (Cons s pre)
  obtain ts vs where s: "s = (ts, vs)" by (cases s) auto
  from Cons.prems(1) have srt: "sorted_wrt (<) (map fst (pre @ (t0, v0) # (t1, v1) # post))"
    and lt: "ts < t0" by (simp_all add: s)
  note IH = Cons.IH[OF srt Cons.prems(2,3)]
  show ?case
  proof (cases pre)
    case Nil
    show ?thesis
    proof (cases "t = t0")
      case True
      have "sample_at lerp ((ts, vs) # (t0, v0) # (t1, v1) # post) t0 = Some (lerp 1 vs v0)"
        using lt by simp
      then show ?thesis using True by (simp add: s Nil l0 l1)
    next
      case False
      with Cons.prems(2) have "t0 < t" by simp
      with lt have "ts < t" by simp
      from sample_at_step[OF this \<open>t0 < t\<close>, of lerp vs v0 "(t1, v1) # post"] IH
      show ?thesis by (simp add: s Nil)
    qed
  next
    case (Cons q pre')
    obtain tq vq where q: "q = (tq, vq)" by (cases q) auto
    from srt have "tq < t0" by (simp add: Cons q)
    with Cons.prems(2) have a: "tq < t" by simp
    from lt Cons.prems(2) have b: "ts < t" by simp
    from sample_at_step[OF b a, of lerp vs vq "pre' @ (t0, v0) # (t1, v1) # post"] IH
    show ?thesis by (simp add: s Cons q)
  qed
qed

lemma sample_at_after:
  assumes l1: "\<And>a b. lerp 1 a b = b"
  shows "sorted_wrt (<) (map fst (pre @ [(tn, vn)])) \<Longrightarrow> tn \<le> t \<Longrightarrow>
     sample_at lerp (pre @ [(tn, vn)]) t = Some vn"
proof (induction pre)
  case Nil
  then show ?case by simp
next
  case (Cons s pre)
  obtain ts vs where s: "s = (ts, vs)" by (cases s) auto
  from Cons.prems(1) have srt: "sorted_wrt (<) (map fst (pre @ [(tn, vn)]))"
    and lt: "ts < tn" by (simp_all add: s)
  note IH = Cons.IH[OF srt Cons.prems(2)]
  from lt Cons.prems(2) have b: "ts < t" by simp
  show ?case
  proof (cases pre)
    case Nil
    show ?thesis
    proof (cases "t = tn")
      case True
      then show ?thesis using lt by (simp add: s Nil l1)
    next
      case False
      with Cons.prems(2) have "tn < t" by simp
      with b show ?thesis by (simp add: s Nil)
    qed
  next
    case (Cons q pre')
    obtain tq vq where q: "q = (tq, vq)" by (cases q) auto
    from srt have "tq < tn" by (simp add: Cons q)
    with \<open>tn \<le> t\<close> have a: "tq < t" by simp
    from sample_at_step[OF b a, of lerp vs vq "pre' @ [(tn, vn)]"] IH
    show ?thesis by (simp add: s Cons q)
  qed
qed

lemma value_at_samples:
  "ss \<noteq> [] \<Longrightarrow> value_at lerp (Sampled d ss) (TimeCode t) = sample_at lerp ss t"
  by (cases ss) simp_all

lemma value_at_between:
  assumes "\<And>a b. lerp 0 a b = a" and "\<And>a b. lerp 1 a b = b"
    and "sorted_wrt (<) (map fst ss)" and "ss = pre @ (t0, v0) # (t1, v1) # post"
    and "t0 \<le> t" and "t \<le> t1"
  shows "value_at lerp (Sampled d ss) (TimeCode t) = Some (lerp ((t - t0) / (t1 - t0)) v0 v1)"
proof -
  have "ss \<noteq> []" using assms(4) by simp
  from value_at_samples[OF this]
  have "value_at lerp (Sampled d ss) (TimeCode t) = sample_at lerp ss t" .
  also have "\<dots> = Some (lerp ((t - t0) / (t1 - t0)) v0 v1)"
    unfolding assms(4)
    by (rule sample_at_between[where lerp = lerp], rule assms(1), rule assms(2),
        rule assms(3)[unfolded assms(4)], rule assms(5), rule assms(6))
  finally show ?thesis .
qed

lemma value_at_before:
  "ss = (t0, v0) # rest \<Longrightarrow> t \<le> t0 \<Longrightarrow> value_at lerp (Sampled d ss) (TimeCode t) = Some v0"
  using sample_at_before[of t t0 lerp v0 rest] by simp

lemma value_at_after:
  assumes "\<And>a b. lerp 1 a b = b"
    and "sorted_wrt (<) (map fst ss)" and "ss = pre @ [(tn, vn)]" and "tn \<le> t"
  shows "value_at lerp (Sampled d ss) (TimeCode t) = Some vn"
proof -
  have "ss \<noteq> []" using assms(3) by simp
  from value_at_samples[OF this]
  have "value_at lerp (Sampled d ss) (TimeCode t) = sample_at lerp ss t" .
  also have "\<dots> = Some vn"
    unfolding assms(3)
    by (rule sample_at_after[where lerp = lerp], rule assms(1),
        rule assms(2)[unfolded assms(3)], rule assms(4))
  finally show ?thesis .
qed

text \<open>
  C7. The time samples of an op are in increasing order of time. At a time between two
  neighbouring samples \<open>(t0, v0)\<close> and \<open>(t1, v1)\<close> the op is evaluated at the linear
  interpolation of \<open>v0\<close> and \<open>v1\<close>, component by component; at a time up to the first
  sample it is evaluated at the first value and at a time from the last sample on at the
  last value. This holds for the vector ops (translate, scale), the angle ops (rotate about
  an axis) and the matrix op. The translate op sampled (0,0,0) at 0, (50,0,0) at 50 and
  (100,0,0) at 100 yields (25,0,0) at time 25 and (100,0,0) at time 150.
\<close>

theorem time_samples_interpolate_and_clamp:
  fixes vs :: "(real \<times> vec3) list" and angs :: "(real \<times> real) list"
    and ms :: "(real \<times> mat4) list"
  assumes sv: "sorted_wrt (<) (map fst vs)" and sa: "sorted_wrt (<) (map fst angs)"
    and sm: "sorted_wrt (<) (map fst ms)"
  shows
  "(vs = pre @ (t0, v0) # (t1, v1) # post \<and> t0 \<le> t \<and> t \<le> t1 \<longrightarrow>
      Evaluate (Translate (Sampled d vs)) (TimeCode t) =
        translate_matrix (lerp_vec3 ((t - t0) / (t1 - t0)) v0 v1) \<and>
      Evaluate (Scale (Sampled d vs)) (TimeCode t) =
        scale_matrix (lerp_vec3 ((t - t0) / (t1 - t0)) v0 v1)) \<and>
   (vs = (t0, v0) # post \<and> t \<le> t0 \<longrightarrow>
      Evaluate (Translate (Sampled d vs)) (TimeCode t) = translate_matrix v0 \<and>
      Evaluate (Scale (Sampled d vs)) (TimeCode t) = scale_matrix v0) \<and>
   (vs = pre @ [(t1, v1)] \<and> t1 \<le> t \<longrightarrow>
      Evaluate (Translate (Sampled d vs)) (TimeCode t) = translate_matrix v1 \<and>
      Evaluate (Scale (Sampled d vs)) (TimeCode t) = scale_matrix v1) \<and>
   (angs = apre @ (t0, a0) # (t1, a1) # apost \<and> t0 \<le> t \<and> t \<le> t1 \<longrightarrow>
      Evaluate (RotateX (Sampled da angs)) (TimeCode t) =
        rotate_x_matrix (lerp_real ((t - t0) / (t1 - t0)) a0 a1) \<and>
      Evaluate (RotateY (Sampled da angs)) (TimeCode t) =
        rotate_y_matrix (lerp_real ((t - t0) / (t1 - t0)) a0 a1) \<and>
      Evaluate (RotateZ (Sampled da angs)) (TimeCode t) =
        rotate_z_matrix (lerp_real ((t - t0) / (t1 - t0)) a0 a1)) \<and>
   (angs = (t0, a0) # apost \<and> t \<le> t0 \<longrightarrow>
      Evaluate (RotateX (Sampled da angs)) (TimeCode t) = rotate_x_matrix a0 \<and>
      Evaluate (RotateY (Sampled da angs)) (TimeCode t) = rotate_y_matrix a0 \<and>
      Evaluate (RotateZ (Sampled da angs)) (TimeCode t) = rotate_z_matrix a0) \<and>
   (angs = apre @ [(t1, a1)] \<and> t1 \<le> t \<longrightarrow>
      Evaluate (RotateX (Sampled da angs)) (TimeCode t) = rotate_x_matrix a1 \<and>
      Evaluate (RotateY (Sampled da angs)) (TimeCode t) = rotate_y_matrix a1 \<and>
      Evaluate (RotateZ (Sampled da angs)) (TimeCode t) = rotate_z_matrix a1) \<and>
   (ms = mpre @ (t0, m0) # (t1, m1) # mpost \<and> t0 \<le> t \<and> t \<le> t1 \<longrightarrow>
      Evaluate (Matrix (Sampled dm ms)) (TimeCode t) =
        lerp_mat4 ((t - t0) / (t1 - t0)) m0 m1) \<and>
   (ms = (t0, m0) # mpost \<and> t \<le> t0 \<longrightarrow>
      Evaluate (Matrix (Sampled dm ms)) (TimeCode t) = m0) \<and>
   (ms = mpre @ [(t1, m1)] \<and> t1 \<le> t \<longrightarrow>
      Evaluate (Matrix (Sampled dm ms)) (TimeCode t) = m1)"
proof -
  have vec_between: "vs = pre @ (t0, v0) # (t1, v1) # post \<and> t0 \<le> t \<and> t \<le> t1 \<longrightarrow>
      Evaluate (Translate (Sampled d vs)) (TimeCode t) =
        translate_matrix (lerp_vec3 ((t - t0) / (t1 - t0)) v0 v1) \<and>
      Evaluate (Scale (Sampled d vs)) (TimeCode t) =
        scale_matrix (lerp_vec3 ((t - t0) / (t1 - t0)) v0 v1)"
    (is "_ \<longrightarrow> ?C")
  proof (intro impI, elim conjE)
    assume e: "vs = pre @ (t0, v0) # (t1, v1) # post" and lo: "t0 \<le> t" and hi: "t \<le> t1"
    have "value_at lerp_vec3 (Sampled d vs) (TimeCode t) =
        Some (lerp_vec3 ((t - t0) / (t1 - t0)) v0 v1)"
      by (rule value_at_between[where lerp = lerp_vec3 and pre = pre and post = post],
          rule lerp_vec3_ends(1), rule lerp_vec3_ends(2), rule sv, rule e, rule lo, rule hi)
    then show ?C by (simp add: op_matrix_def)
  qed
  have vec_before: "vs = (t0, v0) # post \<and> t \<le> t0 \<longrightarrow>
      Evaluate (Translate (Sampled d vs)) (TimeCode t) = translate_matrix v0 \<and>
      Evaluate (Scale (Sampled d vs)) (TimeCode t) = scale_matrix v0"
    (is "_ \<longrightarrow> ?C")
  proof (intro impI, elim conjE)
    assume e: "vs = (t0, v0) # post" and lo: "t \<le> t0"
    have "value_at lerp_vec3 (Sampled d vs) (TimeCode t) = Some v0"
      by (rule value_at_before[OF e lo])
    then show ?C by (simp add: op_matrix_def)
  qed
  have vec_after: "vs = pre @ [(t1, v1)] \<and> t1 \<le> t \<longrightarrow>
      Evaluate (Translate (Sampled d vs)) (TimeCode t) = translate_matrix v1 \<and>
      Evaluate (Scale (Sampled d vs)) (TimeCode t) = scale_matrix v1"
    (is "_ \<longrightarrow> ?C")
  proof (intro impI, elim conjE)
    assume e: "vs = pre @ [(t1, v1)]" and hi: "t1 \<le> t"
    have "value_at lerp_vec3 (Sampled d vs) (TimeCode t) = Some v1"
      by (rule value_at_after[where lerp = lerp_vec3 and pre = pre],
          rule lerp_vec3_ends(2), rule sv, rule e, rule hi)
    then show ?C by (simp add: op_matrix_def)
  qed
  have ang_between:
    "angs = apre @ (t0, a0) # (t1, a1) # apost \<and> t0 \<le> t \<and> t \<le> t1 \<longrightarrow>
      Evaluate (RotateX (Sampled da angs)) (TimeCode t) =
        rotate_x_matrix (lerp_real ((t - t0) / (t1 - t0)) a0 a1) \<and>
      Evaluate (RotateY (Sampled da angs)) (TimeCode t) =
        rotate_y_matrix (lerp_real ((t - t0) / (t1 - t0)) a0 a1) \<and>
      Evaluate (RotateZ (Sampled da angs)) (TimeCode t) =
        rotate_z_matrix (lerp_real ((t - t0) / (t1 - t0)) a0 a1)"
    (is "_ \<longrightarrow> ?C")
  proof (intro impI, elim conjE)
    assume e: "angs = apre @ (t0, a0) # (t1, a1) # apost"
      and lo: "t0 \<le> t" and hi: "t \<le> t1"
    have "value_at lerp_real (Sampled da angs) (TimeCode t) =
        Some (lerp_real ((t - t0) / (t1 - t0)) a0 a1)"
      by (rule value_at_between[where lerp = lerp_real and pre = apre and post = apost],
          rule lerp_real_ends(1), rule lerp_real_ends(2), rule sa, rule e, rule lo, rule hi)
    then show ?C by (simp add: op_matrix_def)
  qed
  have ang_before: "angs = (t0, a0) # apost \<and> t \<le> t0 \<longrightarrow>
      Evaluate (RotateX (Sampled da angs)) (TimeCode t) = rotate_x_matrix a0 \<and>
      Evaluate (RotateY (Sampled da angs)) (TimeCode t) = rotate_y_matrix a0 \<and>
      Evaluate (RotateZ (Sampled da angs)) (TimeCode t) = rotate_z_matrix a0"
    (is "_ \<longrightarrow> ?C")
  proof (intro impI, elim conjE)
    assume e: "angs = (t0, a0) # apost" and lo: "t \<le> t0"
    have "value_at lerp_real (Sampled da angs) (TimeCode t) = Some a0"
      by (rule value_at_before[OF e lo])
    then show ?C by (simp add: op_matrix_def)
  qed
  have ang_after: "angs = apre @ [(t1, a1)] \<and> t1 \<le> t \<longrightarrow>
      Evaluate (RotateX (Sampled da angs)) (TimeCode t) = rotate_x_matrix a1 \<and>
      Evaluate (RotateY (Sampled da angs)) (TimeCode t) = rotate_y_matrix a1 \<and>
      Evaluate (RotateZ (Sampled da angs)) (TimeCode t) = rotate_z_matrix a1"
    (is "_ \<longrightarrow> ?C")
  proof (intro impI, elim conjE)
    assume e: "angs = apre @ [(t1, a1)]" and hi: "t1 \<le> t"
    have "value_at lerp_real (Sampled da angs) (TimeCode t) = Some a1"
      by (rule value_at_after[where lerp = lerp_real and pre = apre],
          rule lerp_real_ends(2), rule sa, rule e, rule hi)
    then show ?C by (simp add: op_matrix_def)
  qed
  have mat_between: "ms = mpre @ (t0, m0) # (t1, m1) # mpost \<and> t0 \<le> t \<and> t \<le> t1 \<longrightarrow>
      Evaluate (Matrix (Sampled dm ms)) (TimeCode t) =
        lerp_mat4 ((t - t0) / (t1 - t0)) m0 m1"
    (is "_ \<longrightarrow> ?C")
  proof (intro impI, elim conjE)
    assume e: "ms = mpre @ (t0, m0) # (t1, m1) # mpost" and lo: "t0 \<le> t" and hi: "t \<le> t1"
    have "value_at lerp_mat4 (Sampled dm ms) (TimeCode t) =
        Some (lerp_mat4 ((t - t0) / (t1 - t0)) m0 m1)"
      by (rule value_at_between[where lerp = lerp_mat4 and pre = mpre and post = mpost],
          rule lerp_mat4_ends(1), rule lerp_mat4_ends(2), rule sm, rule e, rule lo, rule hi)
    then show ?C by (simp add: op_matrix_def)
  qed
  have mat_before: "ms = (t0, m0) # mpost \<and> t \<le> t0 \<longrightarrow>
      Evaluate (Matrix (Sampled dm ms)) (TimeCode t) = m0"
    (is "_ \<longrightarrow> ?C")
  proof (intro impI, elim conjE)
    assume e: "ms = (t0, m0) # mpost" and lo: "t \<le> t0"
    have "value_at lerp_mat4 (Sampled dm ms) (TimeCode t) = Some m0"
      by (rule value_at_before[OF e lo])
    then show ?C by (simp add: op_matrix_def)
  qed
  have mat_after: "ms = mpre @ [(t1, m1)] \<and> t1 \<le> t \<longrightarrow>
      Evaluate (Matrix (Sampled dm ms)) (TimeCode t) = m1"
    (is "_ \<longrightarrow> ?C")
  proof (intro impI, elim conjE)
    assume e: "ms = mpre @ [(t1, m1)]" and hi: "t1 \<le> t"
    have "value_at lerp_mat4 (Sampled dm ms) (TimeCode t) = Some m1"
      by (rule value_at_after[where lerp = lerp_mat4 and pre = mpre],
          rule lerp_mat4_ends(2), rule sm, rule e, rule hi)
    then show ?C by (simp add: op_matrix_def)
  qed
  from vec_between vec_before vec_after ang_between ang_before ang_after mat_between mat_before mat_after
  show ?thesis by blast
qed

theorem time_samples_interpolate_and_clamp_witness:
  "sorted_wrt (<) (map fst animated_samples) \<and>
   Evaluate (Translate (Sampled None animated_samples)) (TimeCode 25) =
     translate_matrix (25, 0, 0) \<and>
   Evaluate (Translate (Sampled None animated_samples)) (TimeCode 50) =
     translate_matrix (50, 0, 0) \<and>
   Evaluate (Translate (Sampled None animated_samples)) (TimeCode 150) =
     translate_matrix (100, 0, 0) \<and>
   Evaluate (Translate (Sampled None animated_samples)) (TimeCode (- 5)) =
     translate_matrix (0, 0, 0) \<and>
   Evaluate (RotateZ (Sampled None [(0, 0), (100, 90)])) (TimeCode 50) = rotate_z_matrix 45 \<and>
   Evaluate (Matrix (Sampled None [(0, identity), (100, scale_matrix (3, 3, 3))])) (TimeCode 50) =
     scale_matrix (2, 2, 2) \<and>
   fst (get_world_position (PrimAt stage_Animated) (TimeCode 25)) = Inr (25, 0, 0) \<and>
   fst (get_world_position (PrimAt stage_Animated) (TimeCode 150)) = Inr (100, 0, 0)"
proof -
  let ?angs = "[(0, 0), (100, 90)] :: (real \<times> real) list"
  let ?ms = "[(0, identity), (100, scale_matrix (3, 3, 3))] :: (real \<times> mat4) list"
  have sv: "sorted_wrt (<) (map fst animated_samples)" by (simp add: animated_samples_def)
  have sa: "sorted_wrt (<) (map fst ?angs)" by simp
  have sm: "sorted_wrt (<) (map fst ?ms)" by simp
  note T = time_samples_interpolate_and_clamp[OF sv sa sm]
  have e1: "animated_samples = [] @ (0, (0, 0, 0)) # (50, (50, 0, 0)) # [(100, (100, 0, 0))]"
    and e2: "animated_samples = [(0, (0, 0, 0))] @ (50, (50, 0, 0)) # (100, (100, 0, 0)) # []"
    and e3: "animated_samples = [(0, (0, 0, 0)), (50, (50, 0, 0))] @ [(100, (100, 0, 0))]"
    and e4: "animated_samples = (0, (0, 0, 0)) # [(50, (50, 0, 0)), (100, (100, 0, 0))]"
    by (simp_all add: animated_samples_def)
  have a: "Evaluate (Translate (Sampled None animated_samples)) (TimeCode 25) =
      translate_matrix (25, 0, 0)"
    using T[where pre = "[]" and ?t0.0 = 0 and ?v0.0 = "(0, 0, 0)" and ?t1.0 = 50
        and ?v1.0 = "(50, 0, 0)" and post = "[(100, (100, 0, 0))]" and t = 25 and d = None] e1
    by (simp add: lerp_real_def)
  have b: "Evaluate (Translate (Sampled None animated_samples)) (TimeCode 50) =
      translate_matrix (50, 0, 0)"
    using T[where pre = "[(0, (0, 0, 0))]" and ?t0.0 = 50 and ?v0.0 = "(50, 0, 0)"
        and ?t1.0 = 100 and ?v1.0 = "(100, 0, 0)" and post = "[]" and t = 50 and d = None] e2
    by (simp add: lerp_real_def)
  have c: "Evaluate (Translate (Sampled None animated_samples)) (TimeCode 150) =
      translate_matrix (100, 0, 0)"
    using T[where pre = "[(0, (0, 0, 0)), (50, (50, 0, 0))]" and ?t1.0 = 100
        and ?v1.0 = "(100, 0, 0)" and t = 150 and d = None] e3
    by simp
  have d: "Evaluate (Translate (Sampled None animated_samples)) (TimeCode (- 5)) =
      translate_matrix (0, 0, 0)"
    using T[where ?t0.0 = 0 and ?v0.0 = "(0, 0, 0)"
        and post = "[(50, (50, 0, 0)), (100, (100, 0, 0))]" and t = "- 5" and d = None] e4
    by simp
  have r: "Evaluate (RotateZ (Sampled None ?angs)) (TimeCode 50) = rotate_z_matrix 45"
    using T[where apre = "[]" and ?t0.0 = 0 and ?a0.0 = 0 and ?t1.0 = 100 and ?a1.0 = 90
        and apost = "[]" and t = 50 and da = None]
    by (simp add: lerp_real_def)
  have m: "Evaluate (Matrix (Sampled None ?ms)) (TimeCode 50) = scale_matrix (2, 2, 2)"
    using T[where mpre = "[]" and ?t0.0 = 0 and ?m0.0 = identity and ?t1.0 = 100
        and ?m1.0 = "scale_matrix (3, 3, 3)" and mpost = "[]" and t = 50 and dm = None]
    by (simp add: lerp_real_def identity_def scale_matrix_def)
  have g1: "fst (get_world_position (PrimAt stage_Animated) (TimeCode 25)) = Inr (25, 0, 0)"
    using a by (simp add: get_world_position_def stage_Animated_def stage_World_def
        compose_def identity_def translate_matrix_def)
  have g2: "fst (get_world_position (PrimAt stage_Animated) (TimeCode 150)) = Inr (100, 0, 0)"
    using c by (simp add: get_world_position_def stage_Animated_def stage_World_def
        compose_def identity_def translate_matrix_def)
  from sv a b c d r m g1 g2 show ?thesis by simp
qed

subsection \<open>A scale with a zero component\<close>

text \<open>
  C8, as stated: evaluating a scale op with a zero component records a warning. The source
  has one diagnostic, the line the batch query prints for a prim that is not transformable,
  and no function looks at a scale. For the cube flattened by the scale (0, 1, 1) the scale
  op is evaluated, the batch query prints nothing and the single query returns its position.
\<close>

theorem zero_scale_diagnostic_counterexample:
  "Evaluate (Scale (Sampled (Some (0, 1, 1)) [])) Default =
     ((0, 0, 0, 0), (0, 1, 0, 0), (0, 0, 1, 0), (0, 0, 0, 1)) \<and>
   fst (get_world_positions_batch [PrimAt stage_Flat] Default) = Inr [(10, 20, 30)] \<and>
   printed (snd (get_world_positions_batch [PrimAt stage_Flat] Default)) = [] \<and>
   get_world_position (PrimAt stage_Flat) Default =
     (Inr (10, 20, 30),
      [Ev_IsA (PrimAt stage_Flat), Ev_ComputeLocalToWorldTransform (PrimAt stage_Flat) Default])"
  using batch_valid[of "[stage_Flat]" Default]
  by (simp add: get_world_position_def stage_defs matrix_defs)

text \<open>
  C8, amended. A scale op evaluates to its diagonal matrix whatever its components, zero
  included, and nothing is recorded for it: the lines of the batch query are the warnings
  for the prims that are not transformable and no others, and for a transformable prim all
  three queries return normally and print nothing.
\<close>

theorem zero_scale_is_not_flagged:
  "Evaluate (Scale (Sampled (Some (sx, sy, sz)) [])) time =
     ((sx, 0, 0, 0), (0, sy, 0, 0), (0, 0, sz, 0), (0, 0, 0, 1)) \<and>
   printed (snd (get_world_positions_batch (map PrimAt prims) time)) =
     map (\<lambda>p. ''Warning: Prim '' @ GetPath p @ '' is not transformable, skipping.'')
       (filter (\<lambda>p. \<not> IsA_Xformable p) prims) \<and>
   (IsA_Xformable prim \<longrightarrow>
      fst (get_world_position (PrimAt prim) time) =
        Inr (ExtractTranslation (ComputeLocalToWorldTransform prim time)) \<and>
      printed (snd (get_world_position (PrimAt prim) time)) = [] \<and>
      fst (get_world_transform_components ExtractRotation (PrimAt prim) time) \<noteq> Inl e \<and>
      printed (snd (get_world_transform_components ExtractRotation (PrimAt prim) time)) = [] \<and>
      fst (get_world_positions_batch [PrimAt prim] time) =
        Inr [ExtractTranslation (ComputeLocalToWorldTransform prim time)] \<and>
      printed (snd (get_world_positions_batch [PrimAt prim] time)) = [])"
proof -
  have s: "Evaluate (Scale (Sampled (Some (sx, sy, sz)) [])) time =
     ((sx, 0, 0, 0), (0, sy, 0, 0), (0, 0, sz, 0), (0, 0, 0, 1))"
    by (cases time) (simp_all add: op_matrix_def scale_matrix_def)
  have b: "IsA_Xformable prim \<longrightarrow>
      fst (get_world_positions_batch [PrimAt prim] time) =
        Inr [ExtractTranslation (ComputeLocalToWorldTransform prim time)] \<and>
      printed (snd (get_world_positions_batch [PrimAt prim] time)) = []"
    using batch_valid[of "[prim]" time] by simp
  from s b show ?thesis
    by (simp add: printed_batch_valid get_world_position_def
        get_world_transform_components_def Let_def)
qed

theorem zero_scale_is_not_flagged_witness:
  "IsA_Xformable stage_Flat \<and>
   printed (snd (get_world_positions_batch [PrimAt stage_Flat, PrimAt stage_Scope] Default)) =
     [''Warning: Prim /World/Scope is not transformable, skipping.''] \<and>
   fst (get_world_position (PrimAt stage_Flat) Default) = Inr (10, 20, 30) \<and>
   fst (get_world_transform_components ExtractRotationMatrix (PrimAt stage_Flat) Default) \<noteq>
     Inl (RuntimeError ''Prim at path /World/Flat is not transformable.'') \<and>
   fst (get_world_positions_batch [PrimAt stage_Flat] Default) = Inr [(10, 20, 30)] \<and>
   printed (snd (get_world_positions_batch [PrimAt stage_Flat] Default)) = []"
proof -
  have y: "IsA_Xformable stage_Flat" by (simp add: stage_defs)
  have w: "ExtractTranslation (ComputeLocalToWorldTransform stage_Flat Default) = (10, 20, 30)"
    by (simp add: stage_defs matrix_defs)
  note T = zero_scale_is_not_flagged[where prim = stage_Flat and time = Default
      and ExtractRotation = ExtractRotationMatrix
      and e = "RuntimeError ''Prim at path /World/Flat is not transformable.''"
      and prims = "[stage_Flat, stage_Scope]" and sx = 0 and sy = 1 and sz = 1]
  from T have "printed (snd (get_world_positions_batch
      [PrimAt stage_Flat, PrimAt stage_Scope] Default)) =
     [''Warning: Prim /World/Scope is not transformable, skipping.'']"
    by (simp add: stage_defs)
  moreover from T y w
  have "fst (get_world_position (PrimAt stage_Flat) Default) = Inr (10, 20, 30)"
    and "fst (get_world_transform_components ExtractRotationMatrix (PrimAt stage_Flat)
      Default) \<noteq> Inl (RuntimeError ''Prim at path /World/Flat is not transformable.'')"
    and "fst (get_world_positions_batch [PrimAt stage_Flat] Default) = Inr [(10, 20, 30)]"
    and "printed (snd (get_world_positions_batch [PrimAt stage_Flat] Default)) = []"
    by simp_all
  ultimately show ?thesis using y by simp
qed

end
